theory Spec2Isabelle
  imports Complex_Main
begin

section \<open>Data model (schemas.py)\<close>

text \<open>
  Calendar dates are day ordinals and datetimes are microsecond counts, both integers.
  The \<open>Float\<close> columns \<open>Amount\<close>, \<open>daily_used\<close> and \<open>amount\<close> are
  modelled as real numbers: rounding, infinities and NaN of the machine floats are
  outside this development.
\<close>

type_synonym date = int
type_synonym datetime = int

text \<open>Class \<open>User\<close>; the primary key \<open>id\<close> is called \<open>uid\<close> here.\<close>

record user =
  uid :: int
  username :: string
  AccountNo :: int
  Amount :: real
  daily_used :: real
  last_reset :: date

text \<open>
  Class \<open>Transaction\<close>. The autoincrement key and the server-side timestamp are
  assigned by the store and are not part of the model.
\<close>

record transaction =
  user_id :: int
  account_no :: int
  amount :: real
  transaction_type :: string

text \<open>
  The \<open>HTTPException\<close>s the services and routes raise, one constructor per
  \<open>detail\<close> text; \<open>DailyLimitExceeded\<close> carries the \<open>daily_used\<close> value
  that the detail text prints.
\<close>

datatype http_error =
    InvalidAmount
  | SelfTransfer
  | InsufficientFunds
  | DailyLimitExceeded real
  | SenderNotFound
  | ReceiverNotFound
  | TransactionFailed
  | PastDate
  | ScheduleFailed
  | DatabaseError


text \<open>
  The fixture \<open>sample_users\<close> of tests/conftest.py, with \<open>date.today()\<close> passed in.
\<close>

definition sample_users :: "date \<Rightarrow> user list" where
  "sample_users today =
     [\<lparr>uid = 1, username = ''user1'', AccountNo = 1000000001, Amount = 5000,
        daily_used = 2000, last_reset = today\<rparr>,
      \<lparr>uid = 2, username = ''user2'', AccountNo = 1000000002, Amount = 3000,
        daily_used = 2000, last_reset = today\<rparr>,
      \<lparr>uid = 3, username = ''user3'', AccountNo = 1000000003, Amount = 1000,
        daily_used = 2000, last_reset = today\<rparr>]"

section \<open>The validator (services/transfer\_service.py)\<close>

text \<open>
  \<open>TransferService.validate_transfer_request\<close>. The method returns nothing or raises,
  and it may assign to the sender object before it raises; the model returns the outcome
  together with the sender record as the method leaves it. \<open>today\<close> is the value of
  \<open>date.today()\<close>.
\<close>

definition validate_transfer_request ::
  "date \<Rightarrow> user \<Rightarrow> user \<Rightarrow> real \<Rightarrow> (http_error + unit) \<times> user" where
  "validate_transfer_request today sender receiver amt =
     (if amt \<le> 0 then (Inl InvalidAmount, sender)
      else if AccountNo sender = AccountNo receiver then (Inl SelfTransfer, sender)
      else if Amount sender < amt then (Inl InsufficientFunds, sender)
      else
        let sender' =
              (if last_reset sender \<noteq> today
               then sender\<lparr>daily_used := 2000, last_reset := today\<rparr>
               else sender)
        in if amt > daily_used sender'
           then (Inl (DailyLimitExceeded (daily_used sender')), sender')
           else (Inr (), sender'))"

subsection \<open>The validator as the specification words it\<close>

text \<open>
  Section 4.1 of the specification: rejection reasons are checked in a fixed order and the
  first match wins. \<open>first_match\<close> picks the reason of the first condition that holds;
  \<open>spec_validator\<close> lists the four conditions in the order of the specification, the
  last one against the remaining allowance after the reset rule.
\<close>

fun first_match :: "(bool \<times> 'r) list \<Rightarrow> 'r option" where
  "first_match [] = None"
| "first_match ((c, r) # rest) = (if c then Some r else first_match rest)"

definition remaining_after_reset :: "date \<Rightarrow> user \<Rightarrow> real" where
  "remaining_after_reset today sender =
     (if last_reset sender \<noteq> today then 2000 else daily_used sender)"

definition spec_validator :: "date \<Rightarrow> user \<Rightarrow> user \<Rightarrow> real \<Rightarrow> http_error option" where
  "spec_validator today sender receiver amt =
     first_match
       [(amt \<le> 0, InvalidAmount),
        (AccountNo sender = AccountNo receiver, SelfTransfer),
        (Amount sender < amt, InsufficientFunds),
        (amt > remaining_after_reset today sender,
           DailyLimitExceeded (remaining_after_reset today sender))]"

section \<open>The store and the session\<close>

text \<open>
  The two tables. A row is addressed by its position in \<open>users\<close>: the position stands
  for the identity of the mapped object, so two references are the same object exactly
  when they are the same position.
\<close>

record db =
  users :: "user list"
  transactions :: "transaction list"

text \<open>
  A SQLAlchemy session: \<open>committed\<close> is what the store holds, \<open>working\<close> is what the
  session's objects hold (assignments to attributes and \<open>add_all\<close> go there). A commit
  that succeeds makes the working state the committed one; \<open>rollback\<close> discards the
  working state. A session is opened on the store with both components equal, and closing
  it keeps the committed component only.
\<close>

record session =
  committed :: db
  working :: db

definition open_session :: "db \<Rightarrow> session" where
  "open_session d = \<lparr>committed = d, working = d\<rparr>"

definition rollback :: "session \<Rightarrow> session" where
  "rollback s = \<lparr>committed = committed s, working = committed s\<rparr>"

text \<open>An exception raised by the store or the broker, as its message.\<close>

type_synonym exn = string

text \<open>\<open>query(...).filter(P).first()\<close>: the first row that satisfies \<open>P\<close>, if any.\<close>

fun first_index :: "('a \<Rightarrow> bool) \<Rightarrow> 'a list \<Rightarrow> nat option" where
  "first_index P [] = None"
| "first_index P (x # xs) = (if P x then Some 0 else map_option Suc (first_index P xs))"

definition total_balance :: "user list \<Rightarrow> real" where
  "total_balance us = sum_list (map Amount us)"

section \<open>The transfer executor (services/transfer\_service.py)\<close>

text \<open>
  The dictionary a successful transfer returns: the sender's username, balance and
  remaining daily limit, and the receiver's username and balance.
\<close>

record transfer_summary =
  s_username :: string
  s_balance :: real
  s_daily_limit_remaining :: real
  r_username :: string
  r_balance :: real

text \<open>The three assignments \<open>sender.Amount -= amount\<close>, \<open>sender.daily_used -= amount\<close>
  and \<open>receiver.Amount += amount\<close>, in this order, on the objects at positions \<open>i\<close>
  (sender) and \<open>j\<close> (receiver); each reads the object as the previous one left it.\<close>

definition apply_mutation :: "nat \<Rightarrow> nat \<Rightarrow> real \<Rightarrow> user list \<Rightarrow> user list" where
  "apply_mutation i j amt us =
     (let us1 = us[i := (us ! i)\<lparr>Amount := Amount (us ! i) - amt\<rparr>];
          us2 = us1[i := (us1 ! i)\<lparr>daily_used := daily_used (us1 ! i) - amt\<rparr>]
      in us2[j := (us2 ! j)\<lparr>Amount := Amount (us2 ! j) + amt\<rparr>])"

definition summary_of :: "nat \<Rightarrow> nat \<Rightarrow> user list \<Rightarrow> transfer_summary" where
  "summary_of i j us =
     \<lparr>s_username = username (us ! i), s_balance = Amount (us ! i),
      s_daily_limit_remaining = daily_used (us ! i),
      r_username = username (us ! j), r_balance = Amount (us ! j)\<rparr>"

text \<open>
  \<open>TransferService.execute_transfer\<close> on the session objects at positions \<open>i\<close> and
  \<open>j\<close>. \<open>commit\<close> is what \<open>db.commit()\<close> does: \<open>None\<close> when it succeeds,
  \<open>Some e\<close> when it raises the SQLAlchemyError \<open>e\<close>. A rejection of the validator
  propagates with the sender object as the validator left it.
\<close>

definition execute_transfer ::
  "exn option \<Rightarrow> date \<Rightarrow> nat \<Rightarrow> nat \<Rightarrow> real \<Rightarrow> session
     \<Rightarrow> (http_error + transfer_summary) \<times> session" where
  "execute_transfer commit today i j amt s =
     (let us = users (working s);
          (v, sender') = validate_transfer_request today (us ! i) (us ! j) amt;
          us0 = us[i := sender']
      in case v of
           Inl e \<Rightarrow> (Inl e, s\<lparr>working := (working s)\<lparr>users := us0\<rparr>\<rparr>)
         | Inr _ \<Rightarrow>
             let us3 = apply_mutation i j amt us0;
                 sender_txn = \<lparr>user_id = uid (us3 ! i), account_no = AccountNo (us3 ! i),
                                amount = - amt, transaction_type = ''debit''\<rparr>;
                 receiver_txn = \<lparr>user_id = uid (us3 ! j), account_no = AccountNo (us3 ! j),
                                  amount = amt, transaction_type = ''credit''\<rparr>;
                 w = \<lparr>users = us3,
                      transactions = transactions (working s) @ [sender_txn, receiver_txn]\<rparr>
             in (case commit of
                   None \<Rightarrow> (Inr (summary_of i j us3), \<lparr>committed = w, working = w\<rparr>)
                 | Some e \<Rightarrow> (Inl TransactionFailed, rollback (s\<lparr>working := w\<rparr>))))"

section \<open>The immediate route (api/routes/transfers.py)\<close>

text \<open>
  \<open>money_transfer\<close>: one request, on a session of its own that is closed when the request
  ends, so the store afterwards is the committed component.
\<close>

definition money_transfer ::
  "exn option \<Rightarrow> date \<Rightarrow> int \<Rightarrow> int \<Rightarrow> real \<Rightarrow> db \<Rightarrow> (http_error + transfer_summary) \<times> db" where
  "money_transfer commit today sender_id receiver_account amt d =
     (case first_index (\<lambda>u. uid u = sender_id) (users d) of
        None \<Rightarrow> (Inl SenderNotFound, d)
      | Some i \<Rightarrow>
          (case first_index (\<lambda>u. AccountNo u = receiver_account) (users d) of
             None \<Rightarrow> (Inl ReceiverNotFound, d)
           | Some j \<Rightarrow>
               (let (res, s') = execute_transfer commit today i j amt (open_session d)
                in (res, committed s'))))"

section \<open>The scheduled task (celery\_worker.py)\<close>

text \<open>
  What the task returns: a dictionary with status \<open>failed\<close> and an error text, or one
  with status \<open>success\<close>, the summary of both accounts and the amount.
\<close>

datatype task_failure =
    Sender_not_found
  | Receiver_account_not_found
  | Insufficient_funds
  | Exceeds_daily_limit real

datatype task_return =
    Failed task_failure
  | Success transfer_summary real

text \<open>
  How one run of the task ends: it returns a value, or \<open>self.retry\<close> re-queues it with a
  countdown (raising \<open>Retry\<close>), or the exception leaves the task.
\<close>

datatype attempt =
    Returned task_return
  | Retry exn nat
  | Raised exn

text \<open>The option \<open>max_retries=3\<close> of the task decorator.\<close>

definition max_retries :: nat where
  "max_retries = 3"

text \<open>
  \<open>self.retry(exc=e, countdown=c)\<close>. The method belongs to Celery, not to this
  repository; this is its documented contract. \<open>retries\<close> is \<open>request.retries\<close>, the
  number of retries already made (0 in the first run). The task is sent again with
  \<open>retries + 1\<close> unless that exceeds \<open>max_retries\<close>, in which case \<open>exc\<close> is
  raised and the task ends in failure.
\<close>

definition retry :: "nat \<Rightarrow> exn \<Rightarrow> nat \<Rightarrow> attempt" where
  "retry retries exc countdown =
     (if retries + 1 > max_retries then Raised exc else Retry exc countdown)"

text \<open>
  \<open>schedule_money_transfer\<close>, one run, on a session of its own that is closed in the
  \<open>finally\<close> clause: a run that returns before the commit, or whose commit raises,
  leaves the store as it was.
\<close>

definition schedule_money_transfer ::
  "nat \<Rightarrow> exn option \<Rightarrow> date \<Rightarrow> int \<Rightarrow> int \<Rightarrow> real \<Rightarrow> db \<Rightarrow> attempt \<times> db" where
  "schedule_money_transfer retries commit today sender_id receiver_account amt d =
     (case first_index (\<lambda>u. uid u = sender_id) (users d) of
        None \<Rightarrow> (Returned (Failed Sender_not_found), d)
      | Some i \<Rightarrow>
          (case first_index (\<lambda>u. AccountNo u = receiver_account) (users d) of
             None \<Rightarrow> (Returned (Failed Receiver_account_not_found), d)
           | Some j \<Rightarrow>
               (let us = users d in
                if Amount (us ! i) < amt then (Returned (Failed Insufficient_funds), d)
                else
                  let us0 =
                        (if last_reset (us ! i) \<noteq> today
                         then us[i := (us ! i)\<lparr>daily_used := 2000, last_reset := today\<rparr>]
                         else us)
                  in if amt > daily_used (us0 ! i)
                     then (Returned (Failed (Exceeds_daily_limit (daily_used (us0 ! i)))), d)
                     else
                       let us3 = apply_mutation i j amt us0
                       in (case commit of
                             None \<Rightarrow>
                               (Returned (Success (summary_of i j us3) amt), d\<lparr>users := us3\<rparr>)
                           | Some e \<Rightarrow> (retry retries e 60, d)))))"

text \<open>
  The worker's handling of one job: the first run has \<open>retries = 0\<close>; after a
  \<open>Retry\<close> the task runs again with one retry more. Each run meets its own
  environment (the outcome of its commit and the date of that day); the result is the
  list of runs made, and the store after them. When the environments run out the job is
  still waiting for its next run.
\<close>

fun run_attempts ::
  "nat \<Rightarrow> (exn option \<times> date) list \<Rightarrow> int \<Rightarrow> int \<Rightarrow> real \<Rightarrow> db \<Rightarrow> attempt list \<times> db" where
  "run_attempts retries [] sender_id receiver_account amt d = ([], d)"
| "run_attempts retries ((commit, today) # env) sender_id receiver_account amt d =
     (case schedule_money_transfer retries commit today sender_id receiver_account amt d of
        (Retry e c, d') \<Rightarrow>
          (case run_attempts (Suc retries) env sender_id receiver_account amt d' of
             (rest, d'') \<Rightarrow> (Retry e c # rest, d''))
      | (a, d') \<Rightarrow> ([a], d'))"

section \<open>Scheduling a transfer (api/routes/transfers.py)\<close>

text \<open>
  A queued message: the arguments \<open>[sender_id, receiver_account, amount]\<close> and the eta.
\<close>

datatype job = Job int int real datetime

text \<open>\<open>datetime.combine(d, datetime.min.time())\<close>: midnight of day \<open>d\<close>.\<close>

definition midnight :: "date \<Rightarrow> datetime" where
  "midnight d = d * 86400000000"

record scheduled_response =
  task_id :: string
  scheduled_date :: date
  sender_username :: string
  receiver_username :: string
  scheduled_amount :: real

text \<open>
  \<open>scheduled_money_transfer\<close>. \<open>enqueue\<close> is what \<open>apply_async\<close> does: \<open>Inr tid\<close>
  when the broker takes the message and the task gets the id \<open>tid\<close>, \<open>Inl e\<close> when
  it raises. \<open>now\<close> is \<open>datetime.now()\<close>. The route commits nothing, so the store is
  not changed; the queue of the broker is returned.
\<close>

definition scheduled_money_transfer ::
  "(exn + string) \<Rightarrow> date \<Rightarrow> datetime \<Rightarrow> int \<Rightarrow> int \<Rightarrow> real \<Rightarrow> date \<Rightarrow> db
     \<Rightarrow> (string \<times> job) list \<Rightarrow> (http_error + scheduled_response) \<times> (string \<times> job) list" where
  "scheduled_money_transfer enqueue today now sender_id receiver_account amt sdate d q =
     (case first_index (\<lambda>u. uid u = sender_id) (users d) of
        None \<Rightarrow> (Inl SenderNotFound, q)
      | Some i \<Rightarrow>
          (case first_index (\<lambda>u. AccountNo u = receiver_account) (users d) of
             None \<Rightarrow> (Inl ReceiverNotFound, q)
           | Some j \<Rightarrow>
               (case fst (validate_transfer_request today (users d ! i) (users d ! j) amt) of
                  Inl e \<Rightarrow> (Inl e, q)
                | Inr _ \<Rightarrow>
                    if midnight sdate < now then (Inl PastDate, q)
                    else
                      (case enqueue of
                         Inl e \<Rightarrow> (Inl ScheduleFailed, q)
                       | Inr tid \<Rightarrow>
                           (Inr \<lparr>task_id = tid, scheduled_date = sdate,
                                 sender_username = username (users d ! i),
                                 receiver_username = username (users d ! j),
                                 scheduled_amount = amt\<rparr>,
                            q @ [(tid, Job sender_id receiver_account amt (midnight sdate))])))))"

section \<open>Task status (api/routes/tasks.py)\<close>

text \<open>The task states of Celery.\<close>

datatype celery_state = PENDING | RECEIVED | STARTED | RETRY | SUCCESS | FAILURE | REVOKED

text \<open>\<open>state.lower()\<close>.\<close>

fun lower_name :: "celery_state \<Rightarrow> string" where
  "lower_name PENDING = ''pending''"
| "lower_name RECEIVED = ''received''"
| "lower_name STARTED = ''started''"
| "lower_name RETRY = ''retry''"
| "lower_name SUCCESS = ''success''"
| "lower_name FAILURE = ''failure''"
| "lower_name REVOKED = ''revoked''"

text \<open>What the result backend stores for a task: its state, its return value, its exception.\<close>

record task_meta =
  meta_state :: celery_state
  meta_result :: "task_return option"
  meta_info :: "exn option"

text \<open>
  \<open>celery_app.AsyncResult(task_id)\<close> read through \<open>state\<close>, \<open>result\<close> and
  \<open>info\<close>. The class belongs to Celery; by its documented contract an id the backend
  holds nothing for is reported in state PENDING.
\<close>

definition AsyncResult :: "(string \<rightharpoonup> task_meta) \<Rightarrow> string \<Rightarrow> task_meta" where
  "AsyncResult backend tid =
     (case backend tid of
        None \<Rightarrow> \<lparr>meta_state = PENDING, meta_result = None, meta_info = None\<rparr>
      | Some m \<Rightarrow> m)"

record status_response =
  st_task_id :: string
  st_status :: string
  st_message :: "string option"
  st_result :: "task_return option"
  st_error :: "exn option"

definition get_task_status :: "(string \<rightharpoonup> task_meta) \<Rightarrow> string \<Rightarrow> status_response" where
  "get_task_status backend tid =
     (let task = AsyncResult backend tid;
          response = \<lparr>st_task_id = tid, st_status = lower_name (meta_state task),
                       st_message = None, st_result = None, st_error = None\<rparr>
      in if meta_state task = PENDING
         then response\<lparr>st_message := Some ''Transfer is scheduled and waiting to be executed''\<rparr>
         else if meta_state task = SUCCESS then response\<lparr>st_result := meta_result task\<rparr>
         else if meta_state task = FAILURE then response\<lparr>st_error := meta_info task\<rparr>
         else response)"

section \<open>Seeding (api/routes/users.py)\<close>

text \<open>\<open>str(i)\<close> for a natural number.\<close>

fun str_nat :: "nat \<Rightarrow> string" where
  "str_nat n =
     (if n < 10 then [''0123456789'' ! n]
      else str_nat (n div 10) @ [''0123456789'' ! (n mod 10)])"

declare str_nat.simps [simp del]

text \<open>
  \<open>seed_data\<close>: all users are deleted and ten are inserted. The columns the route does
  not set take their defaults (\<open>daily_used = 2000\<close>, \<open>last_reset = date.today\<close>); the
  keys are assigned by the store, \<open>first_id\<close> and the nine after it.
\<close>

definition seed_data :: "exn option \<Rightarrow> int \<Rightarrow> date \<Rightarrow> db \<Rightarrow> (http_error + unit) \<times> db" where
  "seed_data commit first_id today d =
     (case commit of
        None \<Rightarrow>
          (Inr (),
           d\<lparr>users :=
               map (\<lambda>i. \<lparr>uid = first_id + int i - 1, username = ''user'' @ str_nat i,
                         AccountNo = 1000000000 + int i, Amount = 5000,
                         daily_used = 2000, last_reset = today\<rparr>) [1..<11]\<rparr>)
      | Some e \<Rightarrow> (Inl DatabaseError, d))"

section \<open>The system under its public operations\<close>

text \<open>
  The store together with the queue of scheduled jobs, and the four public operations:
  seeding, an immediate transfer, scheduling a transfer, and the worker running the
  \<open>k\<close>-th queued job once (with \<open>retries\<close> retries behind it).
\<close>

record system =
  store :: db
  jobs :: "(string \<times> job) list"

datatype operation =
    Seed "exn option" int date
  | Immediate "exn option" date int int real
  | Schedule "exn + string" date datetime int int real date
  | RunJob nat nat "exn option" date

fun step :: "operation \<Rightarrow> system \<Rightarrow> system" where
  "step (Seed commit first_id today) st =
     st\<lparr>store := snd (seed_data commit first_id today (store st))\<rparr>"
| "step (Immediate commit today sender_id receiver_account amt) st =
     st\<lparr>store := snd (money_transfer commit today sender_id receiver_account amt (store st))\<rparr>"
| "step (Schedule enqueue today now sender_id receiver_account amt sdate) st =
     st\<lparr>jobs := snd (scheduled_money_transfer enqueue today now sender_id receiver_account
                       amt sdate (store st) (jobs st))\<rparr>"
| "step (RunJob k retries commit today) st =
     (if k < length (jobs st)
      then (case snd (jobs st ! k) of
              Job sender_id receiver_account amt eta \<Rightarrow>
                st\<lparr>store := snd (schedule_money_transfer retries commit today sender_id
                                   receiver_account amt (store st))\<rparr>)
      else st)"

fun run_ops :: "operation list \<Rightarrow> system \<Rightarrow> system" where
  "run_ops [] st = st"
| "run_ops (op # ops) st = run_ops ops (step op st)"

definition initial_system :: system where
  "initial_system = \<lparr>store = \<lparr>users = [], transactions = []\<rparr>, jobs = []\<rparr>"

definition account_invariant :: "db \<Rightarrow> bool" where
  "account_invariant d = list_all (\<lambda>u. 0 \<le> Amount u \<and> daily_used u \<le> 2000) (users d)"

text \<open>The store of the tests: the fixture users and an empty ledger.\<close>

definition sample_db :: "date \<Rightarrow> db" where
  "sample_db today = \<lparr>users = sample_users today, transactions = []\<rparr>"

section \<open>Facts about rows and the balance mutation\<close>









lemmas sample_eval = sample_db_def sample_users_def money_transfer_def execute_transfer_def
  validate_transfer_request_def open_session_def rollback_def apply_mutation_def summary_of_def
  schedule_money_transfer_def retry_def max_retries_def total_balance_def Let_def

section \<open>Validation precedence\<close>

lemma validate_outcome:
  "fst (validate_transfer_request today s r a) =
     (if a \<le> 0 then Inl InvalidAmount
      else if AccountNo s = AccountNo r then Inl SelfTransfer
      else if Amount s < a then Inl InsufficientFunds
      else if a > remaining_after_reset today s
           then Inl (DailyLimitExceeded (remaining_after_reset today s))
      else Inr ())"
  by (simp add: validate_transfer_request_def remaining_after_reset_def Let_def)

text \<open>
  Claim C4. The validator rejects with the first matching reason in the order
  InvalidAmount, SelfTransfer, InsufficientFunds, DailyLimitExceeded (the last against the
  allowance after the reset), and accepts when none matches; in particular a request with
  equal account numbers and a non-positive amount is rejected as InvalidAmount.
\<close>

theorem validation_precedence:
  "fst (validate_transfer_request today s r a) =
     (case spec_validator today s r a of Some e \<Rightarrow> Inl e | None \<Rightarrow> Inr ())
   \<and> (AccountNo s = AccountNo r \<and> a \<le> 0 \<longrightarrow>
        fst (validate_transfer_request today s r a) = Inl InvalidAmount)"
  by (simp add: validate_outcome spec_validator_def)

theorem validation_precedence_witness:
  "AccountNo (sample_users 10 ! 0) = AccountNo (sample_users 10 ! 0)
   \<and> (0::real) \<le> 0
   \<and> fst (validate_transfer_request 10 (sample_users 10 ! 0) (sample_users 10 ! 0) 0)
       = Inl InvalidAmount"
proof -
  have h: "AccountNo (sample_users 10 ! 0) = AccountNo (sample_users 10 ! 0) \<and> (0::real) \<le> 0"
    by simp
  from validation_precedence [of 10 "sample_users 10 ! 0" "sample_users 10 ! 0" 0] h
  show ?thesis by blast
qed

section \<open>Conservation of balances\<close>


lemma validate_reject_amount:
  "validate_transfer_request today s r a = (Inl e, s') \<Longrightarrow> Amount s' = Amount s"
  by (auto simp: validate_transfer_request_def Let_def split: if_splits)












section \<open>The ledger pair\<close>

text \<open>
  Claim C2 at a concrete run. The scheduled task moves 500 from user 1 to account
  1000000002 of the test store and reports success, and the ledger stays empty: the task
  writes no transaction records. The immediate route, on the same request, appends the
  debit of -500 for the sender and the credit of +500 for the receiver.
\<close>

theorem scheduled_transfer_writes_no_ledger:
  "fst (schedule_money_transfer 0 None 10 1 1000000002 500 (sample_db 10))
     = Returned (Success \<lparr>s_username = ''user1'', s_balance = 4500,
          s_daily_limit_remaining = 1500, r_username = ''user2'', r_balance = 3500\<rparr> 500)
   \<and> transactions (snd (schedule_money_transfer 0 None 10 1 1000000002 500 (sample_db 10))) = []
   \<and> transactions (snd (money_transfer None 10 1 1000000002 500 (sample_db 10)))
       = [\<lparr>user_id = 1, account_no = 1000000001, amount = - 500, transaction_type = ''debit''\<rparr>,
          \<lparr>user_id = 2, account_no = 1000000002, amount = 500, transaction_type = ''credit''\<rparr>]"
  by (simp add: sample_eval)


section \<open>Failed transfers\<close>







section \<open>The daily reset\<close>









section \<open>The scheduled task has no static checks\<close>




end
